theory Spec2Isabelle
  imports Main "HOL-Library.Word"
begin

section \<open>Data model\<close>

text \<open>
  A \<open>BufferSource\<close> is a sequence of bytes, a JavaScript string a sequence of UTF-16
  code units. \<open>InputDataType = BufferSource | string\<close>; the constructor is what
  \<open>typeof key === 'string'\<close> tests in the source.
\<close>

type_synonym bytes = "8 word list"

type_synonym jsstring = "16 word list"

datatype InputDataType = Str jsstring | Buf bytes

text \<open>
  Literals: the JavaScript string and the buffer whose code units, respectively bytes,
  are the codes of the given ASCII characters.
\<close>

definition js :: "string \<Rightarrow> jsstring" where
  "js s = map of_char s"

definition ascii :: "string \<Rightarrow> bytes" where
  "ascii s = map of_char s"

text \<open>
  The digest of the primitive engine (SHA-256 by default) is kept symbolic: a free
  constructor over the digested bytes, that is, a collision-free digest.
\<close>

datatype digest = Digest bytes

text \<open>
  Key handles and stored values. A key handle is either imported from raw key material
  or the result of a key derivation; \<open>Derived\<close> is the handle that the sample
  derivation of the examples yields, and no theorem but the examples uses it. A stored
  value is either plain bytes (a salt, a nonce) or a ciphertext, kept symbolic as the
  key, the nonce and the plaintext it was made from. A salt is whatever
  \<open>BufferSource\<close> the reserved slot holds, hence a stored value.
\<close>

datatype CryptoKey = Imported bytes | Derived CryptoKey blob "nat option"
  and blob = Raw bytes | Sealed CryptoKey bytes bytes

text \<open>\<open>throw new Error(message)\<close>: an error is its message.\<close>

datatype error = Error string

definition CRYPTO_KEY_ERROR_MESSAGE :: string where
  "CRYPTO_KEY_ERROR_MESSAGE = ''Key is required.''"

definition AUTHENTICITY_ERROR_MESSAGE :: string where
  "AUTHENTICITY_ERROR_MESSAGE = ''Authenticity check failed.''"

text \<open>
  One table (object store) of the database: records addressed by binary keys. The
  database and table that \<open>db\<close> and \<open>name\<close> select are passed to every operation as
  this table and returned updated.
\<close>

type_synonym table = "digest \<rightharpoonup> blob"

text \<open>\<open>IStorageConfig\<close>; a missing \<open>key\<close> (\<open>undefined\<close>) is \<open>None\<close>.\<close>

datatype secret = Text jsstring | Binary bytes | Handle CryptoKey

record IStorageConfig =
  key :: "secret option"
  db :: "jsstring option"
  name :: "jsstring option"
  salt :: "bytes option"
  iterations :: "nat option"

text \<open>
  \<open>IConfigProperties\<close>, the resolved tuple \<open>[store, name, baseKey, salt, iterations]\<close>
  without its first two components (the table above).
\<close>

record IConfigProperties =
  baseKey :: CryptoKey
  resolvedSalt :: blob
  resolvedIterations :: "nat option"

section \<open>The platform's text codec\<close>

text \<open>
  \<open>new TextEncoder().encode(s)\<close>: the string is read as Unicode scalar values, a
  high surrogate followed by a low surrogate being one supplementary code point and
  every other surrogate code unit U+FFFD; each scalar value is written in UTF-8.
\<close>

definition is_high :: "nat \<Rightarrow> bool" where
  "is_high c = (0xD800 \<le> c \<and> c \<le> 0xDBFF)"

definition is_low :: "nat \<Rightarrow> bool" where
  "is_low c = (0xDC00 \<le> c \<and> c \<le> 0xDFFF)"

fun to_scalars :: "nat list \<Rightarrow> nat list" where
  "to_scalars [] = []"
| "to_scalars [c] = [if is_high c \<or> is_low c then 0xFFFD else c]"
| "to_scalars (c # d # cs) =
     (if is_high c \<and> is_low d
      then (0x10000 + (c - 0xD800) * 0x400 + (d - 0xDC00)) # to_scalars cs
      else (if is_high c \<or> is_low c then 0xFFFD else c) # to_scalars (d # cs))"

definition utf8_bytes :: "nat \<Rightarrow> nat list" where
  "utf8_bytes cp =
     (if cp < 0x80 then [cp]
      else if cp < 0x800 then [0xC0 + cp div 64, 0x80 + cp mod 64]
      else if cp < 0x10000
        then [0xE0 + cp div 4096, 0x80 + (cp div 64) mod 64, 0x80 + cp mod 64]
      else [0xF0 + cp div 262144, 0x80 + (cp div 4096) mod 64, 0x80 + (cp div 64) mod 64,
            0x80 + cp mod 64])"

definition TextEncoder_encode :: "jsstring \<Rightarrow> bytes" where
  "TextEncoder_encode s = map of_nat (concat (map utf8_bytes (to_scalars (map unat s))))"

text \<open>
  \<open>new TextDecoder('utf-8').decode(b)\<close>: a leading byte-order mark is dropped; the
  bytes are decoded as UTF-8, every ill-formed sequence giving U+FFFD and the byte that
  ended it being read again; the code points are written as UTF-16 code units.
\<close>

definition cont :: "nat \<Rightarrow> nat \<Rightarrow> nat \<Rightarrow> bool" where
  "cont lo hi b = (lo \<le> b \<and> b \<le> hi)"

fun utf8_decode :: "nat list \<Rightarrow> nat list" where
  "utf8_decode [] = []"
| "utf8_decode (b # bs) =
     (if b < 0x80 then b # utf8_decode bs
      else if 0xC2 \<le> b \<and> b \<le> 0xDF then
        (case bs of
           [] \<Rightarrow> [0xFFFD]
         | c1 # r1 \<Rightarrow>
             if cont 0x80 0xBF c1 then ((b - 0xC0) * 64 + (c1 - 0x80)) # utf8_decode r1
             else 0xFFFD # utf8_decode bs)
      else if 0xE0 \<le> b \<and> b \<le> 0xEF then
        (case bs of
           [] \<Rightarrow> [0xFFFD]
         | c1 # r1 \<Rightarrow>
             if cont (if b = 0xE0 then 0xA0 else 0x80) (if b = 0xED then 0x9F else 0xBF) c1 then
               (case r1 of
                  [] \<Rightarrow> [0xFFFD]
                | c2 # r2 \<Rightarrow>
                    if cont 0x80 0xBF c2
                    then ((b - 0xE0) * 4096 + (c1 - 0x80) * 64 + (c2 - 0x80)) # utf8_decode r2
                    else 0xFFFD # utf8_decode r1)
             else 0xFFFD # utf8_decode bs)
      else if 0xF0 \<le> b \<and> b \<le> 0xF4 then
        (case bs of
           [] \<Rightarrow> [0xFFFD]
         | c1 # r1 \<Rightarrow>
             if cont (if b = 0xF0 then 0x90 else 0x80) (if b = 0xF4 then 0x8F else 0xBF) c1 then
               (case r1 of
                  [] \<Rightarrow> [0xFFFD]
                | c2 # r2 \<Rightarrow>
                    if cont 0x80 0xBF c2 then
                      (case r2 of
                         [] \<Rightarrow> [0xFFFD]
                       | c3 # r3 \<Rightarrow>
                           if cont 0x80 0xBF c3
                           then ((b - 0xF0) * 262144 + (c1 - 0x80) * 4096 + (c2 - 0x80) * 64
                                 + (c3 - 0x80)) # utf8_decode r3
                           else 0xFFFD # utf8_decode r2)
                    else 0xFFFD # utf8_decode r1)
             else 0xFFFD # utf8_decode bs)
      else 0xFFFD # utf8_decode bs)"

definition utf16_units :: "nat \<Rightarrow> nat list" where
  "utf16_units cp =
     (if cp < 0x10000 then [cp]
      else [0xD800 + (cp - 0x10000) div 0x400, 0xDC00 + (cp - 0x10000) mod 0x400])"

fun strip_bom :: "nat list \<Rightarrow> nat list" where
  "strip_bom (b0 # b1 # b2 # bs) =
     (if b0 = 0xEF \<and> b1 = 0xBB \<and> b2 = 0xBF then bs else b0 # b1 # b2 # bs)"
| "strip_bom bs = bs"

definition TextDecoder_decode :: "bytes \<Rightarrow> jsstring" where
  "TextDecoder_decode b =
     map of_nat (concat (map utf16_units (utf8_decode (strip_bom (map unat b)))))"

text \<open>A string is well formed when it has no surrogate code unit outside a pair.\<close>

fun well_formed :: "nat list \<Rightarrow> bool" where
  "well_formed [] = True"
| "well_formed [c] = (\<not> is_high c \<and> \<not> is_low c)"
| "well_formed (c # d # cs) =
     (if is_high c then is_low d \<and> well_formed cs else \<not> is_low c \<and> well_formed (d # cs))"

definition scalar :: "nat \<Rightarrow> bool" where
  "scalar cp = (cp < 0x110000 \<and> \<not> (0xD800 \<le> cp \<and> cp \<le> 0xDFFF))"

section \<open>Crypto utilities\<close>

text \<open>\<open>encode\<close>: a typed array is returned as it is, a text is UTF-8 encoded.\<close>

fun encode :: "InputDataType \<Rightarrow> bytes" where
  "encode (Buf b) = b"
| "encode (Str s) = TextEncoder_encode s"

text \<open>\<open>decode\<close>: a string is returned as it is, a buffer is UTF-8 decoded.\<close>

fun decode :: "InputDataType \<Rightarrow> jsstring" where
  "decode (Str s) = s"
| "decode (Buf b) = TextDecoder_decode b"

definition generateHash :: "InputDataType \<Rightarrow> digest" where
  "generateHash data = Digest (encode data)"

text \<open>
  The storage module imports \<open>generateCryptoKey\<close>, \<open>deriveKey\<close>, \<open>encrypt\<close> and
  \<open>decrypt\<close> from the crypto module; the file that defines them is not among the
  sources (its tests and its callers are).

  \<open>deriveKey\<close> is a parameter of \<open>get\<close> and \<open>set\<close> below: a function of the base
  key, the salt and the iteration count, as the spec says the derived key is determined
  by them. Nothing else is assumed of it.
\<close>

type_synonym derivation = "CryptoKey \<Rightarrow> blob \<Rightarrow> nat option \<Rightarrow> CryptoKey"

text \<open>
  Modelled from the spec: \<open>generateCryptoKey\<close> (\<open>importKey\<close> in the spec), whose
  source is missing. It accepts text or binary key material and yields the key handle
  of that material.
\<close>

definition generateCryptoKey :: "InputDataType \<Rightarrow> CryptoKey" where
  "generateCryptoKey raw = Imported (encode raw)"

text \<open>
  Modelled from the spec: \<open>encrypt\<close>, whose source is missing. With the default
  algorithm it returns the ciphertext and the freshly generated nonce; the generated
  nonce is the parameter \<open>nonce\<close>.
\<close>

definition encrypt :: "bytes \<Rightarrow> InputDataType \<Rightarrow> CryptoKey \<Rightarrow> blob \<times> blob" where
  "encrypt nonce data k = (Sealed k nonce (encode data), Raw nonce)"

text \<open>
  Modelled from the spec: \<open>decrypt\<close>, whose source is missing. Given a raw nonce it
  returns the plaintext, and it fails whenever the ciphertext, key, or nonce do not
  match what produced the ciphertext; a record's nonce must exist for decryption to
  succeed. The failure is the primitive engine's \<open>OperationError\<close>.
\<close>

fun decrypt :: "blob \<Rightarrow> CryptoKey \<Rightarrow> blob option \<Rightarrow> error + bytes" where
  "decrypt (Sealed k n p) k' (Some (Raw n')) =
     (if k = k' \<and> n = n' then Inr p else Inl (Error ''OperationError''))"
| "decrypt _ _ _ = Inl (Error ''OperationError'')"

section \<open>Encrypted storage\<close>

text \<open>
  \<open>getAndStoreSalt\<close>. \<open>rnd\<close> is what \<open>generateSalt()\<close> returns if it is called.
  \<open>existingSalt === salt\<close> compares two buffers; it is modelled on their contents:
  where the contents agree, returning the stored salt and storing the caller's salt
  leave the same bytes in the slot and return the same bytes.
\<close>

definition getAndStoreSalt :: "bytes \<Rightarrow> table \<Rightarrow> blob option \<Rightarrow> blob \<times> table" where
  "getAndStoreSalt rnd store s =
     (let hash = generateHash (Str (js ''o-salt''));
          existingSalt = store hash
      in case existingSalt of
           Some e \<Rightarrow>
             (if s = None \<or> Some e = s then (e, store)
              else (let saltValue = (case s of Some v \<Rightarrow> v | None \<Rightarrow> Raw rnd)
                    in (saltValue, store(hash \<mapsto> saltValue))))
         | None \<Rightarrow>
             (let saltValue = (case s of Some v \<Rightarrow> v | None \<Rightarrow> Raw rnd)
              in (saltValue, store(hash \<mapsto> saltValue))))"

definition getNonceKey :: "InputDataType \<Rightarrow> jsstring" where
  "getNonceKey k = (case k of Str s \<Rightarrow> s @ js ''-nonce'' | Buf _ \<Rightarrow> js ''nonce'')"

text \<open>\<open>_init\<close>: import the secret unless it is a key handle, resolve the salt.\<close>

definition init :: "bytes \<Rightarrow> secret \<Rightarrow> IStorageConfig \<Rightarrow> table \<Rightarrow> IConfigProperties \<times> table" where
  "init rnd k config store =
     (let bk = (case k of Handle h \<Rightarrow> h
                        | Text s \<Rightarrow> generateCryptoKey (Str s)
                        | Binary b \<Rightarrow> generateCryptoKey (Buf b));
          (sv, store') = getAndStoreSalt rnd store (map_option Raw (salt config))
      in (\<lparr>baseKey = bk, resolvedSalt = sv, resolvedIterations = iterations config\<rparr>, store'))"

text \<open>
  The constructor: \<open>!config.key\<close> holds of \<open>undefined\<close> and of the empty text, and of
  no object (a buffer, also an empty one, or a key handle).
\<close>

fun falsy :: "secret option \<Rightarrow> bool" where
  "falsy None = True"
| "falsy (Some (Text s)) = (s = [])"
| "falsy (Some (Binary b)) = False"
| "falsy (Some (Handle h)) = False"

definition constructor :: "bytes \<Rightarrow> IStorageConfig \<Rightarrow> table \<Rightarrow> error + (IConfigProperties \<times> table)" where
  "constructor rnd config store =
     (if falsy (key config) then Inl (Error CRYPTO_KEY_ERROR_MESSAGE)
      else case key config of
             Some k \<Rightarrow> Inr (init rnd k config store)
           | None \<Rightarrow> Inl (Error CRYPTO_KEY_ERROR_MESSAGE))"

definition get :: "derivation \<Rightarrow> IConfigProperties \<Rightarrow> table \<Rightarrow> InputDataType \<Rightarrow> error + jsstring option" where
  "get deriveKey props store k =
     (let hashKey = generateHash k;
          hashNonce = generateHash (Str (getNonceKey k))
      in case store hashKey of
           None \<Rightarrow> Inr None
         | Some encrypted \<Rightarrow>
             (let cryptoKey = deriveKey (baseKey props) (resolvedSalt props) (resolvedIterations props);
                  nonce = store hashNonce
              in case decrypt encrypted cryptoKey nonce of
                   Inr v \<Rightarrow> Inr (Some (decode (Buf v)))
                 | Inl e \<Rightarrow> Inl (Error AUTHENTICITY_ERROR_MESSAGE)))"

text \<open>\<open>set\<close>; \<open>nonce\<close> is the nonce that \<open>encrypt\<close> generates in this call.\<close>

definition set' :: "derivation \<Rightarrow> IConfigProperties \<Rightarrow> bytes \<Rightarrow> table \<Rightarrow> InputDataType \<Rightarrow> InputDataType \<Rightarrow> table" where
  "set' deriveKey props nonce store k v =
     (let hashKey = generateHash k;
          hashNonce = generateHash (Str (getNonceKey k));
          cryptoKey = deriveKey (baseKey props) (resolvedSalt props) (resolvedIterations props);
          (encrypted, n) = encrypt nonce v cryptoKey
      in (store(hashKey \<mapsto> encrypted))(hashNonce \<mapsto> n))"

definition clear :: "bytes \<Rightarrow> IConfigProperties \<Rightarrow> table \<Rightarrow> table" where
  "clear rnd props store = snd (getAndStoreSalt rnd Map.empty (Some (resolvedSalt props)))"

definition delete :: "table \<Rightarrow> InputDataType \<Rightarrow> table" where
  "delete store k =
     (let hashKey = generateHash k;
          hashNonce = generateHash (Str (getNonceKey k))
      in (store(hashKey := None))(hashNonce := None))"

section \<open>Facts about the text codec\<close>

lemmas codec_defs = js_def ascii_def is_high_def is_low_def utf8_bytes_def
  TextEncoder_encode_def cont_def utf16_units_def TextDecoder_decode_def

subsection \<open>Decoding what was encoded\<close>

lemma decode2:
  "2 \<le> x \<Longrightarrow> x < 32 \<Longrightarrow> y < 64 \<Longrightarrow>
   utf8_decode ((0xC0 + x) # (0x80 + y) # rest) = (x * 64 + y) # utf8_decode rest"
  by (simp add: cont_def)

lemma decode3:
  "x < 16 \<Longrightarrow> y < 64 \<Longrightarrow> z < 64 \<Longrightarrow> (x = 0 \<longrightarrow> 32 \<le> y) \<Longrightarrow> (x = 13 \<longrightarrow> y < 32) \<Longrightarrow>
   utf8_decode ((0xE0 + x) # (0x80 + y) # (0x80 + z) # rest)
     = (x * 4096 + y * 64 + z) # utf8_decode rest"
  by (auto simp add: cont_def)

lemma decode4:
  "x \<le> 4 \<Longrightarrow> y < 64 \<Longrightarrow> z < 64 \<Longrightarrow> w < 64 \<Longrightarrow> (x = 0 \<longrightarrow> 16 \<le> y) \<Longrightarrow> (x = 4 \<longrightarrow> y < 16) \<Longrightarrow>
   utf8_decode ((0xF0 + x) # (0x80 + y) # (0x80 + z) # (0x80 + w) # rest)
     = (x * 262144 + y * 4096 + z * 64 + w) # utf8_decode rest"
  by (auto simp add: cont_def)

lemma utf8_decode_bytes2:
  assumes "0x80 \<le> cp" "cp < 0x800"
  shows "utf8_decode (utf8_bytes cp @ rest) = cp # utf8_decode rest"
proof -
  define x where "x = cp div 64"
  define y where "y = cp mod 64"
  have cp: "cp = x * 64 + y" by (simp add: x_def y_def)
  have r: "2 \<le> x" "x < 32" "y < 64" using assms unfolding x_def y_def by arith+
  have "utf8_bytes cp = [0xC0 + x, 0x80 + y]"
    using assms by (simp add: utf8_bytes_def x_def y_def)
  then show ?thesis using decode2 [OF r, of rest] cp by simp
qed

lemma utf8_decode_bytes3:
  assumes "0x800 \<le> cp" "cp < 0x10000" "\<not> (0xD800 \<le> cp \<and> cp \<le> 0xDFFF)"
  shows "utf8_decode (utf8_bytes cp @ rest) = cp # utf8_decode rest"
proof -
  define q where "q = cp div 64"
  define x where "x = q div 64"
  define y where "y = q mod 64"
  define z where "z = cp mod 64"
  have e1: "cp = q * 64 + z" by (simp add: q_def z_def)
  have e2: "q = x * 64 + y" by (simp add: x_def y_def)
  have b: "y < 64" "z < 64" by (simp_all add: y_def z_def)
  have x4096: "cp div 4096 = x" by (simp add: x_def q_def div_mult2_eq)
  have cp: "cp = x * 4096 + y * 64 + z" using e1 e2 by simp
  have r: "x < 16" using assms cp b by linarith
  have lo: "x = 0 \<longrightarrow> 32 \<le> y" using assms cp b by auto
  have hi: "x = 13 \<longrightarrow> y < 32" using assms cp b by auto
  have "utf8_bytes cp = [0xE0 + x, 0x80 + y, 0x80 + z]"
    using assms x4096 by (simp add: utf8_bytes_def y_def z_def q_def)
  then show ?thesis using decode3 [OF r b lo hi, of rest] cp by simp
qed

lemma utf8_decode_bytes4:
  assumes "0x10000 \<le> cp" "cp < 0x110000"
  shows "utf8_decode (utf8_bytes cp @ rest) = cp # utf8_decode rest"
proof -
  define q where "q = cp div 64"
  define p where "p = q div 64"
  define x where "x = p div 64"
  define y where "y = p mod 64"
  define z where "z = q mod 64"
  define w where "w = cp mod 64"
  have e1: "cp = q * 64 + w" by (simp add: q_def w_def)
  have e2: "q = p * 64 + z" by (simp add: p_def z_def)
  have e3: "p = x * 64 + y" by (simp add: x_def y_def)
  have b: "y < 64" "z < 64" "w < 64" by (simp_all add: y_def z_def w_def)
  have p4096: "cp div 4096 = p" by (simp add: p_def q_def div_mult2_eq)
  have x262144: "cp div 262144 = x" by (simp add: x_def p_def q_def div_mult2_eq)
  have cp: "cp = x * 262144 + y * 4096 + z * 64 + w" using e1 e2 e3 by simp
  have r: "x \<le> 4" using assms cp b by linarith
  have lo: "x = 0 \<longrightarrow> 16 \<le> y" using assms cp b by auto
  have hi: "x = 4 \<longrightarrow> y < 16" using assms cp b by auto
  have "utf8_bytes cp = [0xF0 + x, 0x80 + y, 0x80 + z, 0x80 + w]"
    using assms p4096 x262144 by (simp add: utf8_bytes_def y_def z_def w_def q_def)
  then show ?thesis using decode4 [OF r b lo hi, of rest] cp by simp
qed

lemma utf8_decode_bytes:
  assumes "scalar cp"
  shows "utf8_decode (utf8_bytes cp @ rest) = cp # utf8_decode rest"
proof -
  consider "cp < 0x80" | "0x80 \<le> cp" "cp < 0x800" | "0x800 \<le> cp" "cp < 0x10000"
    | "0x10000 \<le> cp" by linarith
  then show ?thesis
  proof cases
    case 1 then show ?thesis by (simp add: utf8_bytes_def)
  next
    case 2 then show ?thesis by (rule utf8_decode_bytes2)
  next
    case 3 then show ?thesis using assms by (intro utf8_decode_bytes3) (auto simp add: scalar_def)
  next
    case 4 then show ?thesis using assms by (intro utf8_decode_bytes4) (auto simp add: scalar_def)
  qed
qed

lemma utf8_decode_concat:
  "\<forall>cp \<in> set cps. scalar cp \<Longrightarrow> utf8_decode (concat (map utf8_bytes cps)) = cps"
  by (induction cps) (simp_all add: utf8_decode_bytes)

lemma pair_scalar:
  "is_high c \<Longrightarrow> is_low d \<Longrightarrow> scalar (0x10000 + (c - 0xD800) * 0x400 + (d - 0xDC00))"
  unfolding is_high_def is_low_def scalar_def by linarith

lemma unit_scalar: "c < 0x10000 \<Longrightarrow> scalar (if is_high c \<or> is_low c then 0xFFFD else c)"
  unfolding is_high_def is_low_def scalar_def by auto

lemma to_scalars_scalar:
  "\<forall>c \<in> set u. c < 0x10000 \<Longrightarrow> \<forall>cp \<in> set (to_scalars u). scalar cp"
proof (induction u rule: to_scalars.induct)
  case 1
  then show ?case by simp
next
  case (2 c)
  then show ?case using unit_scalar [of c] by simp
next
  case (3 c d cs)
  then show ?case using unit_scalar [of c] pair_scalar [of c d] by simp
qed

lemma utf16_units_pair:
  assumes "is_high c" "is_low d"
  shows "utf16_units (0x10000 + (c - 0xD800) * 0x400 + (d - 0xDC00)) = [c, d]"
proof -
  define a where "a = c - 0xD800"
  define b where "b = d - 0xDC00"
  have c: "0xD800 + a = c" and d: "0xDC00 + b = d" and b: "b < 1024"
    using assms unfolding a_def b_def is_high_def is_low_def by linarith+
  have dm: "(a * 1024 + b) div 1024 = a" "(a * 1024 + b) mod 1024 = b"
    using b by simp_all
  have "utf16_units (0x10000 + a * 0x400 + b) = [0xD800 + a, 0xDC00 + b]"
    unfolding utf16_units_def using dm by simp
  then have "utf16_units (0x10000 + a * 0x400 + b) = [c, d]"
    by (simp only: c d)
  then show ?thesis unfolding a_def b_def .
qed

lemma utf16_units_single:
  "c < 0x10000 \<Longrightarrow> \<not> is_high c \<Longrightarrow> \<not> is_low c \<Longrightarrow>
   utf16_units (if is_high c \<or> is_low c then 0xFFFD else c) = [c]"
  by (simp add: utf16_units_def)

lemma utf16_units_to_scalars:
  "well_formed u \<Longrightarrow> \<forall>c \<in> set u. c < 0x10000 \<Longrightarrow> concat (map utf16_units (to_scalars u)) = u"
proof (induction u rule: to_scalars.induct)
  case 1
  then show ?case by simp
next
  case (2 c)
  then show ?case using utf16_units_single [of c] by simp
next
  case (3 c d cs)
  show ?case
  proof (cases "is_high c")
    case True
    with 3 show ?thesis using utf16_units_pair [of c d] by simp
  next
    case False
    with 3 show ?thesis using utf16_units_single [of c] by simp
  qed
qed

lemma utf8_bytes_byte: "scalar cp \<Longrightarrow> \<forall>b \<in> set (utf8_bytes cp). b < 256"
proof -
  assume "scalar cp"
  then have "cp < 0x110000" by (simp add: scalar_def)
  then have "cp div 262144 < 16" "cp mod 64 < 64" "cp div 64 mod 64 < 64" "cp div 4096 mod 64 < 64"
    by simp_all
  moreover have "cp < 0x10000 \<Longrightarrow> cp div 4096 < 16" by simp
  moreover have "cp < 0x800 \<Longrightarrow> cp div 64 < 32" by simp
  ultimately show ?thesis by (auto simp add: utf8_bytes_def)
qed

lemma unat_of_nat_byte: "n < 256 \<Longrightarrow> unat (of_nat n :: 8 word) = n"
  by (simp add: unsigned_of_nat take_bit_nat_eq_self)

lemma map_unat_of_nat_bytes:
  "\<forall>b \<in> set xs. b < 256 \<Longrightarrow> map unat (map of_nat xs :: 8 word list) = xs"
  by (induction xs) (simp_all add: unat_of_nat_byte)

lemma unat_bom: "unat (c :: 16 word) = 0xFEFF \<Longrightarrow> c = 0xFEFF"
proof -
  assume "unat c = 0xFEFF"
  then have "(of_nat (unat c) :: 16 word) = of_nat 0xFEFF" by simp
  then show ?thesis by simp
qed

lemma strip_bom_other:
  "\<not> (\<exists>rest. bs = 0xEF # 0xBB # 0xBF # rest) \<Longrightarrow> strip_bom bs = bs"
  by (cases bs rule: strip_bom.cases) auto

lemma utf8_bytes_bom:
  assumes "scalar cp" and "utf8_bytes cp @ bs = 0xEF # 0xBB # 0xBF # rest"
  shows "cp = 0xFEFF"
proof -
  consider "cp < 0x80" | "0x80 \<le> cp" "cp < 0x800" | "0x800 \<le> cp" "cp < 0x10000"
    | "0x10000 \<le> cp" by linarith
  then show ?thesis
  proof cases
    case 1
    with assms(2) show ?thesis by (simp add: utf8_bytes_def)
  next
    case 2
    then have "cp div 64 < 32" by simp
    with 2 assms(2) show ?thesis by (simp add: utf8_bytes_def)
  next
    case 3
    define q where "q = cp div 64"
    define x where "x = q div 64"
    have e1: "cp = q * 64 + cp mod 64" by (simp add: q_def)
    have e2: "q = x * 64 + q mod 64" by (simp add: x_def)
    have e3: "cp div 4096 = x" by (simp add: x_def q_def div_mult2_eq)
    from 3 assms(2) have "cp div 4096 = 15" "q mod 64 = 59" "cp mod 64 = 63"
      by (simp_all add: utf8_bytes_def q_def)
    with e1 e2 e3 show ?thesis by simp
  next
    case 4
    with assms(2) show ?thesis by (simp add: utf8_bytes_def)
  qed
qed

lemma to_scalars_hd:
  "well_formed (c # cs) \<Longrightarrow> c \<noteq> 0xFEFF \<Longrightarrow>
   \<exists>cp rest. to_scalars (c # cs) = cp # rest \<and> cp \<noteq> 0xFEFF"
  by (cases cs) (auto simp add: is_high_def is_low_def)

lemma strip_bom_encoded:
  assumes "well_formed u" "\<forall>c \<in> set u. c < 0x10000" "u = [] \<or> hd u \<noteq> 0xFEFF"
  shows "strip_bom (concat (map utf8_bytes (to_scalars u))) = concat (map utf8_bytes (to_scalars u))"
proof (cases u)
  case Nil
  then show ?thesis by simp
next
  case (Cons c cs)
  with assms obtain cp rest where s: "to_scalars u = cp # rest" "cp \<noteq> 0xFEFF"
    using to_scalars_hd [of c cs] by auto
  have "scalar cp" using to_scalars_scalar [OF assms(2)] s(1) by simp
  then have "\<not> (\<exists>r. utf8_bytes cp @ concat (map utf8_bytes rest) = 0xEF # 0xBB # 0xBF # r)"
    using utf8_bytes_bom s(2) by blast
  then show ?thesis using s(1) by (simp add: strip_bom_other)
qed

lemma units_of_string: "\<forall>c \<in> set (map unat (s :: jsstring)). c < 0x10000"
  using unsigned_less [where 'b = 16] by auto

lemma encoded_bytes:
  "map unat (TextEncoder_encode s) = concat (map utf8_bytes (to_scalars (map unat s)))"
proof -
  have "\<forall>cp \<in> set (to_scalars (map unat s)). scalar cp"
    using units_of_string by (rule to_scalars_scalar)
  then have "\<forall>b \<in> set (concat (map utf8_bytes (to_scalars (map unat s)))). b < 256"
    using utf8_bytes_byte by auto
  then show ?thesis
    unfolding TextEncoder_encode_def by (rule map_unat_of_nat_bytes)
qed

lemma decode_encode:
  assumes "well_formed (map unat s)" and "s = [] \<or> hd s \<noteq> 0xFEFF"
  shows "TextDecoder_decode (TextEncoder_encode s) = s"
proof -
  let ?u = "map unat s"
  let ?cps = "to_scalars ?u"
  let ?bs = "concat (map utf8_bytes ?cps)"
  have scalars: "\<forall>cp \<in> set ?cps. scalar cp"
    using units_of_string by (rule to_scalars_scalar)
  have hd: "?u = [] \<or> hd ?u \<noteq> 0xFEFF"
    using assms(2) unat_bom by (cases s) auto
  have "strip_bom ?bs = ?bs"
    using assms(1) units_of_string hd by (rule strip_bom_encoded)
  moreover have "utf8_decode ?bs = ?cps"
    using scalars by (rule utf8_decode_concat)
  moreover have "concat (map utf16_units ?cps) = ?u"
    using assms(1) units_of_string by (rule utf16_units_to_scalars)
  ultimately show ?thesis
    by (simp add: TextDecoder_decode_def encoded_bytes comp_def)
qed

lemma encode_inj_well_formed:
  assumes "well_formed (map unat s)" "well_formed (map unat t)"
    and "TextEncoder_encode s = TextEncoder_encode t"
  shows "s = t"
proof -
  have rt: "map of_nat (concat (map utf16_units
      (utf8_decode (map unat (TextEncoder_encode r))))) = r"
    if "well_formed (map unat r)" for r :: jsstring
  proof -
    have "\<forall>cp \<in> set (to_scalars (map unat r)). scalar cp"
      using units_of_string by (rule to_scalars_scalar)
    then have "utf8_decode (concat (map utf8_bytes (to_scalars (map unat r))))
        = to_scalars (map unat r)"
      by (rule utf8_decode_concat)
    moreover have "concat (map utf16_units (to_scalars (map unat r))) = map unat r"
      using that units_of_string by (rule utf16_units_to_scalars)
    ultimately show ?thesis by (simp add: encoded_bytes comp_def)
  qed
  from rt [OF assms(1)] rt [OF assms(2)] assms(3) show ?thesis by metis
qed

subsection \<open>Encoding a string with an ASCII suffix\<close>

lemma to_scalars_append:
  "t \<noteq> [] \<Longrightarrow> \<not> is_low (hd t) \<Longrightarrow> to_scalars (s @ t) = to_scalars s @ to_scalars t"
proof (induction s rule: to_scalars.induct)
  case 1
  then show ?case by simp
next
  case (2 c)
  then show ?case by (cases t) auto
next
  case (3 c d cs)
  then show ?case by simp
qed

lemma encode_nonce_suffix:
  "TextEncoder_encode (s @ js ''-nonce'') = TextEncoder_encode s @ ascii ''-nonce''"
proof -
  have "to_scalars (map unat s @ map unat (js ''-nonce''))
      = to_scalars (map unat s) @ to_scalars (map unat (js ''-nonce''))"
    by (rule to_scalars_append) (simp_all add: js_def is_low_def)
  then show ?thesis
    by (simp add: TextEncoder_encode_def) (simp add: codec_defs)
qed

lemma encode_nonce: "TextEncoder_encode (js ''nonce'') = ascii ''nonce''"
  by (simp add: codec_defs)

lemma encode_o_salt: "TextEncoder_encode (js ''o-salt'') = ascii ''o-salt''"
  by (simp add: codec_defs)

section \<open>Addresses\<close>

lemma nonce_address_text_distinct:
  "generateHash (Str (getNonceKey (Str s))) \<noteq> generateHash (Str s)"
  by (simp add: generateHash_def getNonceKey_def encode_nonce_suffix ascii_def)

lemma value_address_is_nonce_address:
  "(generateHash k = generateHash (Str (getNonceKey k))) = (k = Buf (ascii ''nonce''))"
proof (cases k)
  case (Str s)
  then show ?thesis using nonce_address_text_distinct [of s] by auto
next
  case (Buf b)
  then show ?thesis by (auto simp add: generateHash_def getNonceKey_def encode_nonce)
qed

lemma nonce_address_binary:
  "generateHash (Str (getNonceKey (Buf b))) = Digest (ascii ''nonce'')"
  by (simp add: generateHash_def getNonceKey_def encode_nonce)

lemma nonce_address_text_eq:
  "(generateHash (Str (getNonceKey (Str s))) = generateHash (Str (getNonceKey (Str t))))
     = (encode (Str s) = encode (Str t))"
  by (simp add: generateHash_def getNonceKey_def encode_nonce_suffix)

section \<open>Facts about the modelled primitives and the table operations\<close>


lemma getAndStoreSalt_supplied:
  "fst (getAndStoreSalt rnd store (Some s)) = s"
  by (simp add: getAndStoreSalt_def Let_def split: option.splits)




lemma getAndStoreSalt_idem:
  "store (generateHash (Str (js ''o-salt''))) = Some (fst (getAndStoreSalt rnd t0 s)) \<Longrightarrow>
   getAndStoreSalt rnd' store s = (fst (getAndStoreSalt rnd t0 s), store)"
  by (cases s) (auto simp add: getAndStoreSalt_def Let_def split: option.splits)

lemma getAndStoreSalt_adopts:
  "store (generateHash (Str (js ''o-salt''))) = Some e \<Longrightarrow>
   getAndStoreSalt rnd store None = (e, store)"
  by (simp add: getAndStoreSalt_def Let_def)

lemma clear_table:
  "clear rnd props store = [generateHash (Str (js ''o-salt'')) \<mapsto> resolvedSalt props]"
  by (simp add: clear_def getAndStoreSalt_def Let_def)

lemma constructor_Inr:
  "constructor rnd cfg t0 = Inr (props, t1) \<Longrightarrow>
   \<exists>k. key cfg = Some k \<and> \<not> falsy (Some k) \<and> init rnd k cfg t0 = (props, t1)"
  by (auto simp add: constructor_def split: if_splits option.splits)


lemma init_fresh:
  assumes "init rnd k cfg t0 = (props, t1)"
    and "store (generateHash (Str (js ''o-salt''))) = Some (resolvedSalt props)"
  shows "init rnd' k cfg store = (props, store)"
proof -
  let ?s = "map_option Raw (salt cfg)"
  from assms(1) have p: "props =
      \<lparr>baseKey = (case k of Handle h \<Rightarrow> h
                          | Text s \<Rightarrow> generateCryptoKey (Str s)
                          | Binary b \<Rightarrow> generateCryptoKey (Buf b)),
       resolvedSalt = fst (getAndStoreSalt rnd t0 ?s),
       resolvedIterations = iterations cfg\<rparr>"
    by (auto simp add: init_def Let_def split: prod.splits)
  then have "resolvedSalt props = fst (getAndStoreSalt rnd t0 ?s)" by simp
  with assms(2) have "getAndStoreSalt rnd' store ?s = (fst (getAndStoreSalt rnd t0 ?s), store)"
    by (simp add: getAndStoreSalt_idem)
  with p show ?thesis by (simp add: init_def Let_def)
qed

lemma get_absent: "store (generateHash k) = None \<Longrightarrow> get dk props store k = Inr None"
  by (simp add: get_def Let_def)

lemma get_two_addresses:
  "store (generateHash k) = store' (generateHash k) \<Longrightarrow>
   store (generateHash (Str (getNonceKey k))) = store' (generateHash (Str (getNonceKey k))) \<Longrightarrow>
   get dk props store k = get dk props store' k"
  unfolding get_def Let_def by (simp cong: option.case_cong)


lemma get_after_set:
  "k \<noteq> Buf (ascii ''nonce'') \<Longrightarrow>
   get dk props (set' dk props nonce store k v) k = Inr (Some (decode (Buf (encode v))))"
  using value_address_is_nonce_address [of k]
  by (simp add: get_def set'_def Let_def encrypt_def)

lemma delete_other:
  "a \<noteq> generateHash k \<Longrightarrow> a \<noteq> generateHash (Str (getNonceKey k)) \<Longrightarrow>
   delete store k a = store a"
  by (simp add: delete_def Let_def)

lemma delete_removes:
  "delete store k (generateHash k) = None
   \<and> delete store k (generateHash (Str (getNonceKey k))) = None"
  by (simp add: delete_def Let_def)

lemma delete_absent:
  "store (generateHash k) = None \<Longrightarrow> store (generateHash (Str (getNonceKey k))) = None \<Longrightarrow>
   delete store k = store"
  by (auto simp add: delete_def Let_def)

text \<open>
  The simplification rules that evaluate the operations on the concrete tables and
  keys of the examples.
\<close>

lemmas eval_defs = get_def set'_def delete_def clear_def constructor_def init_def
  getAndStoreSalt_def generateCryptoKey_def encrypt_def generateHash_def getNonceKey_def
  Let_def codec_defs

section \<open>Salt resolution\<close>

text \<open>
  Claim C1, as the code has it: when the reserved slot holds a salt and the caller
  supplied none, the stored salt is returned and the table is unchanged; when the
  caller supplied a differing salt, the caller's salt is written to the slot and
  returned.
\<close>

theorem getAndStoreSalt_caller_salt_wins:
  "store (generateHash (Str (js ''o-salt''))) = Some e \<Longrightarrow>
     getAndStoreSalt rnd store None = (e, store)
     \<and> (s \<noteq> e \<longrightarrow>
          getAndStoreSalt rnd store (Some s) = (s, store(generateHash (Str (js ''o-salt'')) \<mapsto> s)))"
  by (auto simp add: getAndStoreSalt_def Let_def)

theorem getAndStoreSalt_caller_salt_wins_witness:
  "[generateHash (Str (js ''o-salt'')) \<mapsto> Raw (ascii ''abc'')] (generateHash (Str (js ''o-salt'')))
     = Some (Raw (ascii ''abc''))
   \<and> Raw (ascii ''xyz'') \<noteq> Raw (ascii ''abc'')
   \<and> getAndStoreSalt (ascii ''r'') [generateHash (Str (js ''o-salt'')) \<mapsto> Raw (ascii ''abc'')] None
       = (Raw (ascii ''abc''), [generateHash (Str (js ''o-salt'')) \<mapsto> Raw (ascii ''abc'')])
   \<and> getAndStoreSalt (ascii ''r'') [generateHash (Str (js ''o-salt'')) \<mapsto> Raw (ascii ''abc'')]
        (Some (Raw (ascii ''xyz'')))
       = (Raw (ascii ''xyz''), [generateHash (Str (js ''o-salt'')) \<mapsto> Raw (ascii ''xyz'')])"
  using getAndStoreSalt_caller_salt_wins
    [of "[generateHash (Str (js ''o-salt'')) \<mapsto> Raw (ascii ''abc'')]" "Raw (ascii ''abc'')"
        "ascii ''r''" "Raw (ascii ''xyz'')"]
  by (simp add: ascii_def)

text \<open>
  Claim C1 as stated fails: the slot holds the salt \<open>abc\<close>, the caller supplies
  \<open>xyz\<close>; the result is \<open>xyz\<close>, not the stored salt, and the slot holds \<open>xyz\<close>
  afterwards.
\<close>

theorem getAndStoreSalt_stored_salt_wins_counterexample:
  "fst (getAndStoreSalt (ascii ''r'') [generateHash (Str (js ''o-salt'')) \<mapsto> Raw (ascii ''abc'')]
          (Some (Raw (ascii ''xyz''))))
     \<noteq> Raw (ascii ''abc'')
   \<and> snd (getAndStoreSalt (ascii ''r'') [generateHash (Str (js ''o-salt'')) \<mapsto> Raw (ascii ''abc'')]
            (Some (Raw (ascii ''xyz''))))
        (generateHash (Str (js ''o-salt''))) \<noteq> Some (Raw (ascii ''abc''))"
  by (simp add: getAndStoreSalt_def generateHash_def Let_def ascii_def)

section \<open>Round trip\<close>

text \<open>
  Claim C3, as the code has it: for every value and every key other than the buffer
  holding the bytes of \<open>nonce\<close>, \<open>set\<close> followed by \<open>get\<close> on the same instance
  returns the text decoded from the UTF-8 bytes of the value; for a text value that is
  well formed and does not begin with a byte-order mark, that is the value itself.
\<close>

theorem set_get_roundtrip:
  "k \<noteq> Buf (ascii ''nonce'') \<Longrightarrow>
     get dk props (set' dk props nonce store k v) k = Inr (Some (decode (Buf (encode v))))
     \<and> (well_formed (map unat t) \<and> (t = [] \<or> hd t \<noteq> 0xFEFF) \<longrightarrow>
          get dk props (set' dk props nonce store k (Str t)) k = Inr (Some t))"
  by (simp add: get_after_set decode_encode)

theorem set_get_roundtrip_witness:
  "Str (js ''a'') \<noteq> Buf (ascii ''nonce'')
   \<and> well_formed (map unat (js ''any value''))
   \<and> hd (js ''any value'') \<noteq> 0xFEFF
   \<and> get Derived \<lparr>baseKey = Imported (ascii ''k''), resolvedSalt = Raw (ascii ''s''), resolvedIterations = None\<rparr>
       (set' Derived \<lparr>baseKey = Imported (ascii ''k''), resolvedSalt = Raw (ascii ''s''), resolvedIterations = None\<rparr>
          (ascii ''n'') Map.empty (Str (js ''a'')) (Str (js ''any value''))) (Str (js ''a''))
     = Inr (Some (js ''any value''))"
proof -
  have h1: "Str (js ''a'') \<noteq> Buf (ascii ''nonce'')" by simp
  have h2: "well_formed (map unat (js ''any value''))" by (simp add: codec_defs)
  have h3: "hd (js ''any value'') \<noteq> 0xFEFF" by (simp add: js_def)
  from h2 h3 set_get_roundtrip [OF h1, of Derived
      "\<lparr>baseKey = Imported (ascii ''k''), resolvedSalt = Raw (ascii ''s''), resolvedIterations = None\<rparr>"
      "ascii ''n''" Map.empty "Str (js ''any value'')" "js ''any value''"]
  have "get Derived \<lparr>baseKey = Imported (ascii ''k''), resolvedSalt = Raw (ascii ''s''), resolvedIterations = None\<rparr>
       (set' Derived \<lparr>baseKey = Imported (ascii ''k''), resolvedSalt = Raw (ascii ''s''), resolvedIterations = None\<rparr>
          (ascii ''n'') Map.empty (Str (js ''a'')) (Str (js ''any value''))) (Str (js ''a''))
     = Inr (Some (js ''any value''))"
    by blast
  with h1 h2 h3 show ?thesis by blast
qed

text \<open>
  Claim C3 as stated fails. A text value that begins with a byte-order mark comes back
  without it. A lone surrogate comes back as U+FFFD. A binary value comes back as a
  text, which is not the buffer that was stored. And under the binary key holding the
  bytes of \<open>nonce\<close> the nonce is written over the ciphertext, so \<open>get\<close> raises the
  authenticity error.
\<close>

theorem set_get_roundtrip_counterexample:
  "get Derived \<lparr>baseKey = Imported (ascii ''k''), resolvedSalt = Raw (ascii ''s''), resolvedIterations = None\<rparr>
     (set' Derived \<lparr>baseKey = Imported (ascii ''k''), resolvedSalt = Raw (ascii ''s''), resolvedIterations = None\<rparr>
        (ascii ''n'') Map.empty (Str (js ''a'')) (Str [0xFEFF, 0x78])) (Str (js ''a''))
     = Inr (Some [0x78])
   \<and> get Derived \<lparr>baseKey = Imported (ascii ''k''), resolvedSalt = Raw (ascii ''s''), resolvedIterations = None\<rparr>
       (set' Derived \<lparr>baseKey = Imported (ascii ''k''), resolvedSalt = Raw (ascii ''s''), resolvedIterations = None\<rparr>
          (ascii ''n'') Map.empty (Str (js ''a'')) (Str [0xD800])) (Str (js ''a''))
     = Inr (Some [0xFFFD])
   \<and> get Derived \<lparr>baseKey = Imported (ascii ''k''), resolvedSalt = Raw (ascii ''s''), resolvedIterations = None\<rparr>
       (set' Derived \<lparr>baseKey = Imported (ascii ''k''), resolvedSalt = Raw (ascii ''s''), resolvedIterations = None\<rparr>
          (ascii ''n'') Map.empty (Str (js ''a'')) (Buf (ascii ''v''))) (Str (js ''a''))
     = Inr (Some (js ''v''))
   \<and> Str (js ''v'') \<noteq> Buf (ascii ''v'')
   \<and> get Derived \<lparr>baseKey = Imported (ascii ''k''), resolvedSalt = Raw (ascii ''s''), resolvedIterations = None\<rparr>
       (set' Derived \<lparr>baseKey = Imported (ascii ''k''), resolvedSalt = Raw (ascii ''s''), resolvedIterations = None\<rparr>
          (ascii ''n'') Map.empty (Buf (ascii ''nonce'')) (Str (js ''v''))) (Buf (ascii ''nonce''))
     = Inl (Error AUTHENTICITY_ERROR_MESSAGE)"
  by (simp add: eval_defs)

section \<open>Reading\<close>






text \<open>
  Claim C6, as the code has it: for every key whose ciphertext record exists and
  whose nonce record is absent, \<open>get\<close> raises the authenticity error.
\<close>

theorem get_missing_nonce_raises:
  "store (generateHash k) = Some e \<Longrightarrow> store (generateHash (Str (getNonceKey k))) = None \<Longrightarrow>
   get dk props store k = Inl (Error AUTHENTICITY_ERROR_MESSAGE)"
  by (simp add: get_def Let_def)

theorem get_missing_nonce_raises_witness:
  "[generateHash (Str (js ''a'')) \<mapsto> Sealed (Imported (ascii ''k'')) (ascii ''n'') (ascii ''1'')]
      (generateHash (Str (js ''a'')))
     = Some (Sealed (Imported (ascii ''k'')) (ascii ''n'') (ascii ''1''))
   \<and> [generateHash (Str (js ''a'')) \<mapsto> Sealed (Imported (ascii ''k'')) (ascii ''n'') (ascii ''1'')]
        (generateHash (Str (getNonceKey (Str (js ''a''))))) = None
   \<and> get Derived \<lparr>baseKey = Imported (ascii ''k''), resolvedSalt = Raw (ascii ''s''), resolvedIterations = None\<rparr>
        [generateHash (Str (js ''a'')) \<mapsto> Sealed (Imported (ascii ''k'')) (ascii ''n'') (ascii ''1'')]
        (Str (js ''a''))
       = Inl (Error AUTHENTICITY_ERROR_MESSAGE)"
  using get_missing_nonce_raises
      [of "[generateHash (Str (js ''a'')) \<mapsto> Sealed (Imported (ascii ''k'')) (ascii ''n'') (ascii ''1'')]"
          "Str (js ''a'')" "Sealed (Imported (ascii ''k'')) (ascii ''n'') (ascii ''1'')" Derived
          "\<lparr>baseKey = Imported (ascii ''k''), resolvedSalt = Raw (ascii ''s''), resolvedIterations = None\<rparr>"]
    nonce_address_text_distinct [of "js ''a''"]
  by simp

text \<open>
  Claim C6 as stated fails: after \<open>set\<close> of the key \<open>a\<close> and \<open>delete\<close> of the key
  \<open>a-nonce\<close>, the ciphertext record of \<open>a\<close> exists and its nonce record is absent;
  \<open>get\<close> of \<open>a\<close> raises the authenticity error and does not report not found.
\<close>

theorem get_missing_nonce_not_found_counterexample:
  "delete (set' Derived \<lparr>baseKey = Imported (ascii ''k''), resolvedSalt = Raw (ascii ''s''), resolvedIterations = None\<rparr>
             (ascii ''n'') Map.empty (Str (js ''a'')) (Str (js ''1''))) (Str (js ''a-nonce''))
      (generateHash (Str (js ''a'')))
     \<noteq> None
   \<and> delete (set' Derived \<lparr>baseKey = Imported (ascii ''k''), resolvedSalt = Raw (ascii ''s''), resolvedIterations = None\<rparr>
               (ascii ''n'') Map.empty (Str (js ''a'')) (Str (js ''1''))) (Str (js ''a-nonce''))
        (generateHash (Str (getNonceKey (Str (js ''a''))))) = None
   \<and> get Derived \<lparr>baseKey = Imported (ascii ''k''), resolvedSalt = Raw (ascii ''s''), resolvedIterations = None\<rparr>
        (delete (set' Derived \<lparr>baseKey = Imported (ascii ''k''), resolvedSalt = Raw (ascii ''s''), resolvedIterations = None\<rparr>
                   (ascii ''n'') Map.empty (Str (js ''a'')) (Str (js ''1''))) (Str (js ''a-nonce'')))
        (Str (js ''a''))
       = Inl (Error AUTHENTICITY_ERROR_MESSAGE)
   \<and> Inl (Error AUTHENTICITY_ERROR_MESSAGE) \<noteq> (Inr None :: error + jsstring option)"
  by (simp add: eval_defs)

section \<open>Nonce addresses\<close>

text \<open>
  Claim C2, as the code has it, for text keys: the nonce key of a text key is the key
  followed by \<open>-nonce\<close>, and its digest differs from the address of the value
  record. Two text keys have the same nonce address exactly when they have the same
  UTF-8 encoding, so distinct well-formed text keys have distinct nonce addresses.
  \<open>set\<close> writes the ciphertext at the value address and the nonce that \<open>encrypt\<close>
  returns at the nonce address; \<open>get\<close> decrypts with the record it finds at the nonce
  address: after \<open>set\<close>, whatever is then put at the nonce address, \<open>get\<close> returns
  the value when that record is the nonce of the \<open>set\<close> and raises the authenticity
  error otherwise; \<open>delete\<close> removes the record at the nonce address.
\<close>

theorem nonce_address_of_text_key:
  "getNonceKey (Str s) = s @ js ''-nonce''
   \<and> generateHash (Str (getNonceKey (Str s))) \<noteq> generateHash (Str s)
   \<and> (generateHash (Str (getNonceKey (Str s))) = generateHash (Str (getNonceKey (Str t))))
       = (encode (Str s) = encode (Str t))
   \<and> (well_formed (map unat s) \<and> well_formed (map unat t) \<and> s \<noteq> t \<longrightarrow>
        generateHash (Str (getNonceKey (Str s))) \<noteq> generateHash (Str (getNonceKey (Str t))))
   \<and> set' dk props nonce store (Str s) v (generateHash (Str s))
       = Some (fst (encrypt nonce v
           (dk (baseKey props) (resolvedSalt props) (resolvedIterations props))))
   \<and> set' dk props nonce store (Str s) v (generateHash (Str (getNonceKey (Str s))))
       = Some (snd (encrypt nonce v
           (dk (baseKey props) (resolvedSalt props) (resolvedIterations props))))
   \<and> get dk props
        ((set' dk props nonce store (Str s) v) (generateHash (Str (getNonceKey (Str s))) := x))
        (Str s)
       = (if x = Some (snd (encrypt nonce v
                (dk (baseKey props) (resolvedSalt props) (resolvedIterations props))))
          then Inr (Some (decode (Buf (encode v))))
          else Inl (Error AUTHENTICITY_ERROR_MESSAGE))
   \<and> delete store (Str s) (generateHash (Str (getNonceKey (Str s)))) = None"
proof -
  let ?n = "generateHash (Str (getNonceKey (Str s)))"
  let ?key = "dk (baseKey props) (resolvedSalt props) (resolvedIterations props)"
  have a: "getNonceKey (Str s) = s @ js ''-nonce''" by (simp add: getNonceKey_def)
  have b: "?n \<noteq> generateHash (Str s)" by (rule nonce_address_text_distinct)
  have c: "(?n = generateHash (Str (getNonceKey (Str t)))) = (encode (Str s) = encode (Str t))"
    by (rule nonce_address_text_eq)
  have d: "well_formed (map unat s) \<and> well_formed (map unat t) \<and> s \<noteq> t \<longrightarrow>
        ?n \<noteq> generateHash (Str (getNonceKey (Str t)))"
    using c encode_inj_well_formed [of s t] by auto
  have e: "set' dk props nonce store (Str s) v (generateHash (Str s)) = Some (fst (encrypt nonce v ?key))"
    using b by (simp add: set'_def Let_def split: prod.splits)
  have f: "set' dk props nonce store (Str s) v ?n = Some (snd (encrypt nonce v ?key))"
    by (simp add: set'_def Let_def split: prod.splits)
  have g: "get dk props ((set' dk props nonce store (Str s) v) (?n := x)) (Str s)
       = (if x = Some (snd (encrypt nonce v ?key)) then Inr (Some (decode (Buf (encode v))))
          else Inl (Error AUTHENTICITY_ERROR_MESSAGE))"
  proof -
    have v: "((set' dk props nonce store (Str s) v) (?n := x)) (generateHash (Str s))
        = Some (Sealed ?key nonce (encode v))"
      using b e by (simp add: encrypt_def)
    have "decrypt (Sealed ?key nonce (encode v)) ?key x
        = (if x = Some (Raw nonce) then Inr (encode v) else Inl (Error ''OperationError''))"
      by (cases "(Sealed ?key nonce (encode v), ?key, x)" rule: decrypt.cases) auto
    with v show ?thesis by (simp add: get_def Let_def encrypt_def)
  qed
  have h: "delete store (Str s) ?n = None" using delete_removes by simp
  from a b c d e f g h show ?thesis by blast
qed

text \<open>
  The keys \<open>a\<close> and \<open>b\<close>: their nonce addresses differ; after \<open>set\<close> of \<open>a\<close>,
  \<open>get\<close> of \<open>a\<close> returns the value, and raises once the record at the nonce
  address of \<open>a\<close> is gone.
\<close>

theorem nonce_address_of_text_key_witness:
  "well_formed (map unat (js ''a'')) \<and> well_formed (map unat (js ''b'')) \<and> js ''a'' \<noteq> js ''b''
   \<and> generateHash (Str (getNonceKey (Str (js ''a''))))
       \<noteq> generateHash (Str (getNonceKey (Str (js ''b''))))
   \<and> get Derived \<lparr>baseKey = Imported (ascii ''k''), resolvedSalt = Raw (ascii ''s''), resolvedIterations = None\<rparr>
        ((set' Derived \<lparr>baseKey = Imported (ascii ''k''), resolvedSalt = Raw (ascii ''s''), resolvedIterations = None\<rparr>
            (ascii ''n'') Map.empty (Str (js ''a'')) (Str (js ''1'')))
           (generateHash (Str (getNonceKey (Str (js ''a'')))) := Some (Raw (ascii ''n''))))
        (Str (js ''a''))
       = Inr (Some (js ''1''))
   \<and> get Derived \<lparr>baseKey = Imported (ascii ''k''), resolvedSalt = Raw (ascii ''s''), resolvedIterations = None\<rparr>
        ((set' Derived \<lparr>baseKey = Imported (ascii ''k''), resolvedSalt = Raw (ascii ''s''), resolvedIterations = None\<rparr>
            (ascii ''n'') Map.empty (Str (js ''a'')) (Str (js ''1'')))
           (generateHash (Str (getNonceKey (Str (js ''a'')))) := None))
        (Str (js ''a''))
       = Inl (Error AUTHENTICITY_ERROR_MESSAGE)"
proof -
  let ?p = "\<lparr>baseKey = Imported (ascii ''k''), resolvedSalt = Raw (ascii ''s''), resolvedIterations = None\<rparr>"
  let ?n = "generateHash (Str (getNonceKey (Str (js ''a''))))"
  let ?t = "set' Derived ?p (ascii ''n'') Map.empty (Str (js ''a'')) (Str (js ''1''))"
  let ?c = "snd (encrypt (ascii ''n'') (Str (js ''1''))
      (Derived (baseKey ?p) (resolvedSalt ?p) (resolvedIterations ?p)))"
  have w: "well_formed (map unat (js ''a''))" "well_formed (map unat (js ''b''))" "js ''a'' \<noteq> js ''b''"
    by (simp_all add: codec_defs)
  note present = nonce_address_of_text_key [of "js ''a''" "js ''b''" Derived ?p "ascii ''n''"
      Map.empty "Str (js ''1'')" "Some (Raw (ascii ''n''))"]
  note absent = nonce_address_of_text_key [of "js ''a''" "js ''b''" Derived ?p "ascii ''n''"
      Map.empty "Str (js ''1'')" None]
  from present w have a: "?n \<noteq> generateHash (Str (getNonceKey (Str (js ''b''))))"
    by blast
  from present have "get Derived ?p (?t (?n := Some (Raw (ascii ''n'')))) (Str (js ''a''))
      = (if Some (Raw (ascii ''n'')) = Some ?c then Inr (Some (decode (Buf (encode (Str (js ''1''))))))
         else Inl (Error AUTHENTICITY_ERROR_MESSAGE))"
    by blast
  then have b: "get Derived ?p (?t (?n := Some (Raw (ascii ''n'')))) (Str (js ''a''))
      = Inr (Some (js ''1''))"
    by (simp add: encrypt_def codec_defs)
  from absent have "get Derived ?p (?t (?n := None)) (Str (js ''a''))
      = (if None = Some ?c then Inr (Some (decode (Buf (encode (Str (js ''1''))))))
         else Inl (Error AUTHENTICITY_ERROR_MESSAGE))"
    by blast
  then have c: "get Derived ?p (?t (?n := None)) (Str (js ''a''))
      = Inl (Error AUTHENTICITY_ERROR_MESSAGE)"
    by simp
  from w a b c show ?thesis by blast
qed

text \<open>
  Claim C2 as stated fails. For binary keys: the nonce key of the binary key \<open>a\<close> is
  not the key with a suffix, the distinct binary keys \<open>a\<close> and \<open>b\<close> have the same
  nonce address, and the nonce address of the binary key holding the bytes of
  \<open>nonce\<close> is the address of its value record. For text keys: two distinct keys that
  are lone surrogates have the same nonce address.
\<close>

theorem nonce_address_binary_key_counterexample:
  "Buf (ascii ''a'') \<noteq> Buf (ascii ''b'')
   \<and> getNonceKey (Buf (ascii ''a'')) \<noteq> js ''a'' @ js ''-nonce''
   \<and> generateHash (Str (getNonceKey (Buf (ascii ''a''))))
       = generateHash (Str (getNonceKey (Buf (ascii ''b''))))
   \<and> generateHash (Str (getNonceKey (Buf (ascii ''nonce'')))) = generateHash (Buf (ascii ''nonce''))
   \<and> Str [0xD800] \<noteq> Str [0xD801]
   \<and> generateHash (Str (getNonceKey (Str [0xD800]))) = generateHash (Str (getNonceKey (Str [0xD801])))"
  by (simp add: eval_defs)

text \<open>
  Claim C10, as the code has it: every binary key has the nonce address that is the
  digest of the text \<open>nonce\<close>. For distinct binary keys \<open>b1\<close> and \<open>b2\<close> and distinct
  nonces generated by the two calls: after \<open>set\<close> of \<open>b1\<close> the shared address holds
  its nonce and \<open>get\<close> of \<open>b1\<close> returns its value (unless \<open>b1\<close> holds the bytes of
  \<open>nonce\<close>); after \<open>set\<close> of \<open>b2\<close> the shared address holds the nonce of \<open>b2\<close>
  and \<open>get\<close> of \<open>b1\<close> raises the authenticity error; after \<open>delete\<close> of \<open>b1\<close>
  the shared address is empty and \<open>get\<close> of \<open>b2\<close> does not return its value: it
  raises the authenticity error, or reports not found when \<open>b2\<close> holds the bytes of
  \<open>nonce\<close>, its own record being the deleted one.
\<close>

theorem binary_keys_share_nonce_address:
  assumes "b1 \<noteq> b2" and "n1 \<noteq> n2"
  shows "generateHash (Str (getNonceKey (Buf b1))) = generateHash (Str (js ''nonce''))
    \<and> generateHash (Str (getNonceKey (Buf b2))) = generateHash (Str (js ''nonce''))
    \<and> set' dk props n1 store (Buf b1) v1 (generateHash (Str (js ''nonce''))) = Some (Raw n1)
    \<and> (b1 \<noteq> ascii ''nonce'' \<longrightarrow>
         get dk props (set' dk props n1 store (Buf b1) v1) (Buf b1)
           = Inr (Some (decode (Buf (encode v1)))))
    \<and> set' dk props n2 (set' dk props n1 store (Buf b1) v1) (Buf b2) v2
         (generateHash (Str (js ''nonce''))) = Some (Raw n2)
    \<and> get dk props
         (set' dk props n2 (set' dk props n1 store (Buf b1) v1) (Buf b2) v2) (Buf b1)
        = Inl (Error AUTHENTICITY_ERROR_MESSAGE)
    \<and> delete (set' dk props n2 (set' dk props n1 store (Buf b1) v1) (Buf b2) v2) (Buf b1)
         (generateHash (Str (js ''nonce''))) = None
    \<and> get dk props
         (delete (set' dk props n2 (set' dk props n1 store (Buf b1) v1) (Buf b2) v2) (Buf b1))
         (Buf b2)
        = (if b2 = ascii ''nonce'' then Inr None else Inl (Error AUTHENTICITY_ERROR_MESSAGE))"
proof -
  have rt: "b1 \<noteq> ascii ''nonce'' \<longrightarrow>
      get dk props (set' dk props n1 store (Buf b1) v1) (Buf b1)
        = Inr (Some (decode (Buf (encode v1))))"
    by (simp add: get_after_set)
  show ?thesis
    using assms rt
    by (simp add: get_def set'_def delete_def Let_def encrypt_def generateHash_def
        getNonceKey_def encode_nonce)
qed

theorem binary_keys_share_nonce_address_witness:
  "ascii ''a'' \<noteq> ascii ''b'' \<and> ascii ''n1'' \<noteq> ascii ''n2'' \<and> ascii ''a'' \<noteq> ascii ''nonce''
   \<and> get Derived \<lparr>baseKey = Imported (ascii ''k''), resolvedSalt = Raw (ascii ''s''), resolvedIterations = None\<rparr>
        (set' Derived \<lparr>baseKey = Imported (ascii ''k''), resolvedSalt = Raw (ascii ''s''), resolvedIterations = None\<rparr>
           (ascii ''n1'') Map.empty (Buf (ascii ''a'')) (Str (js ''1''))) (Buf (ascii ''a''))
       = Inr (Some (js ''1''))
   \<and> get Derived \<lparr>baseKey = Imported (ascii ''k''), resolvedSalt = Raw (ascii ''s''), resolvedIterations = None\<rparr>
        (set' Derived \<lparr>baseKey = Imported (ascii ''k''), resolvedSalt = Raw (ascii ''s''), resolvedIterations = None\<rparr>
           (ascii ''n2'')
          (set' Derived \<lparr>baseKey = Imported (ascii ''k''), resolvedSalt = Raw (ascii ''s''), resolvedIterations = None\<rparr>
             (ascii ''n1'') Map.empty (Buf (ascii ''a'')) (Str (js ''1''))) (Buf (ascii ''b'')) (Str (js ''2'')))
        (Buf (ascii ''a''))
       = Inl (Error AUTHENTICITY_ERROR_MESSAGE)
   \<and> get Derived \<lparr>baseKey = Imported (ascii ''k''), resolvedSalt = Raw (ascii ''s''), resolvedIterations = None\<rparr>
        (delete
          (set' Derived \<lparr>baseKey = Imported (ascii ''k''), resolvedSalt = Raw (ascii ''s''), resolvedIterations = None\<rparr>
             (ascii ''n2'')
            (set' Derived \<lparr>baseKey = Imported (ascii ''k''), resolvedSalt = Raw (ascii ''s''), resolvedIterations = None\<rparr>
               (ascii ''n1'') Map.empty (Buf (ascii ''a'')) (Str (js ''1''))) (Buf (ascii ''b'')) (Str (js ''2'')))
          (Buf (ascii ''a''))) (Buf (ascii ''b''))
       = Inl (Error AUTHENTICITY_ERROR_MESSAGE)"
proof -
  have h1: "ascii ''a'' \<noteq> ascii ''b''" by (simp add: ascii_def)
  have h2: "ascii ''n1'' \<noteq> ascii ''n2''" by (simp add: ascii_def)
  have h3: "ascii ''a'' \<noteq> ascii ''nonce''" "ascii ''b'' \<noteq> ascii ''nonce''" by (simp_all add: ascii_def)
  have dec: "decode (Buf (encode (Str (js ''1'')))) = js ''1''" by (simp add: codec_defs)
  from h1 h2 h3 dec binary_keys_share_nonce_address [OF h1 h2, of Derived
      "\<lparr>baseKey = Imported (ascii ''k''), resolvedSalt = Raw (ascii ''s''), resolvedIterations = None\<rparr>"
      Map.empty "Str (js ''1'')" "Str (js ''2'')"]
  show ?thesis by simp
qed

text \<open>
  Claim C10 as stated fails. With the binary keys \<open>a\<close> and \<open>nonce\<close>: after the two
  \<open>set\<close>s and \<open>delete\<close> of \<open>a\<close>, \<open>get\<close> of \<open>nonce\<close> raises nothing and reports
  not found. And when the two calls of \<open>set\<close> generate the same nonce, \<open>get\<close> of the
  first key still returns its value after the second \<open>set\<close>.
\<close>

theorem binary_keys_share_nonce_address_counterexample:
  "get Derived \<lparr>baseKey = Imported (ascii ''k''), resolvedSalt = Raw (ascii ''s''), resolvedIterations = None\<rparr>
     (delete
       (set' Derived \<lparr>baseKey = Imported (ascii ''k''), resolvedSalt = Raw (ascii ''s''), resolvedIterations = None\<rparr>
          (ascii ''n2'')
         (set' Derived \<lparr>baseKey = Imported (ascii ''k''), resolvedSalt = Raw (ascii ''s''), resolvedIterations = None\<rparr>
            (ascii ''n1'') Map.empty (Buf (ascii ''a'')) (Str (js ''1'')))
         (Buf (ascii ''nonce'')) (Str (js ''2'')))
       (Buf (ascii ''a''))) (Buf (ascii ''nonce''))
     = Inr None
   \<and> get Derived \<lparr>baseKey = Imported (ascii ''k''), resolvedSalt = Raw (ascii ''s''), resolvedIterations = None\<rparr>
       (set' Derived \<lparr>baseKey = Imported (ascii ''k''), resolvedSalt = Raw (ascii ''s''), resolvedIterations = None\<rparr>
          (ascii ''n'')
         (set' Derived \<lparr>baseKey = Imported (ascii ''k''), resolvedSalt = Raw (ascii ''s''), resolvedIterations = None\<rparr>
            (ascii ''n'') Map.empty (Buf (ascii ''a'')) (Str (js ''1'')))
         (Buf (ascii ''b'')) (Str (js ''2'')))
       (Buf (ascii ''a''))
     = Inr (Some (js ''1''))"
  by (simp add: eval_defs)

section \<open>Clearing and deleting\<close>

text \<open>
  Claim C7, as the code has it: for an instance constructed from a configuration,
  after \<open>clear\<close> exactly one record remains, the reserved salt slot, holding the salt
  the instance resolved at initialization; a fresh instance constructed from the same
  configuration over the cleared table resolves to the same properties and leaves the
  table as it is; and under every key but the binary key holding the bytes of
  \<open>nonce\<close> a following \<open>set\<close> and \<open>get\<close> returns the text decoded from the UTF-8
  bytes of the value, which for a well-formed text value without a leading byte-order
  mark is the value itself.
\<close>

theorem clear_keeps_only_salt:
  assumes "constructor rnd cfg t0 = Inr (props, t1)"
  shows "dom (clear rnd' props store) = {generateHash (Str (js ''o-salt''))}
    \<and> clear rnd' props store (generateHash (Str (js ''o-salt''))) = Some (resolvedSalt props)
    \<and> constructor rnd'' cfg (clear rnd' props store) = Inr (props, clear rnd' props store)
    \<and> (k \<noteq> Buf (ascii ''nonce'') \<longrightarrow>
        get dk props (set' dk props nonce (clear rnd' props store) k v) k
          = Inr (Some (decode (Buf (encode v)))))
    \<and> (k \<noteq> Buf (ascii ''nonce'') \<and> well_formed (map unat t) \<and> (t = [] \<or> hd t \<noteq> 0xFEFF) \<longrightarrow>
        get dk props (set' dk props nonce (clear rnd' props store) k (Str t)) k
          = Inr (Some t))"
proof -
  from assms obtain sk where sk: "key cfg = Some sk" "\<not> falsy (Some sk)"
      "init rnd sk cfg t0 = (props, t1)"
    using constructor_Inr by blast
  have slot: "clear rnd' props store (generateHash (Str (js ''o-salt''))) = Some (resolvedSalt props)"
    by (simp add: clear_table)
  have "init rnd'' sk cfg (clear rnd' props store) = (props, clear rnd' props store)"
    using sk(3) slot by (rule init_fresh)
  with sk have fresh:
    "constructor rnd'' cfg (clear rnd' props store) = Inr (props, clear rnd' props store)"
    by (simp add: constructor_def)
  have rt: "k \<noteq> Buf (ascii ''nonce'') \<longrightarrow>
        get dk props (set' dk props nonce (clear rnd' props store) k v) k
          = Inr (Some (decode (Buf (encode v))))"
    by (simp add: get_after_set)
  have rtt: "k \<noteq> Buf (ascii ''nonce'') \<and> well_formed (map unat t) \<and> (t = [] \<or> hd t \<noteq> 0xFEFF) \<longrightarrow>
        get dk props (set' dk props nonce (clear rnd' props store) k (Str t)) k
          = Inr (Some t)"
    by (simp add: get_after_set decode_encode)
  have "dom (clear rnd' props store) = {generateHash (Str (js ''o-salt''))}"
    by (simp add: clear_table)
  with slot fresh rt rtt show ?thesis by blast
qed

theorem clear_keeps_only_salt_witness:
  "constructor (ascii ''s1'')
      \<lparr>key = Some (Text (js ''raw key'')), db = None, name = None, salt = None, iterations = None\<rparr>
      Map.empty
     = Inr (\<lparr>baseKey = Imported (ascii ''raw key''), resolvedSalt = Raw (ascii ''s1''), resolvedIterations = None\<rparr>,
            [generateHash (Str (js ''o-salt'')) \<mapsto> Raw (ascii ''s1'')])
   \<and> Str (js ''any key'') \<noteq> Buf (ascii ''nonce'')
   \<and> well_formed (map unat (js ''any value'')) \<and> hd (js ''any value'') \<noteq> 0xFEFF
   \<and> dom (clear (ascii ''s2'') \<lparr>baseKey = Imported (ascii ''raw key''), resolvedSalt = Raw (ascii ''s1''), resolvedIterations = None\<rparr>
            [Digest (ascii ''x'') \<mapsto> Raw (ascii ''y'')])
       = {generateHash (Str (js ''o-salt''))}
   \<and> get Derived \<lparr>baseKey = Imported (ascii ''raw key''), resolvedSalt = Raw (ascii ''s1''), resolvedIterations = None\<rparr>
        (set' Derived \<lparr>baseKey = Imported (ascii ''raw key''), resolvedSalt = Raw (ascii ''s1''), resolvedIterations = None\<rparr>
           (ascii ''n'')
           (clear (ascii ''s2'') \<lparr>baseKey = Imported (ascii ''raw key''), resolvedSalt = Raw (ascii ''s1''), resolvedIterations = None\<rparr>
              [Digest (ascii ''x'') \<mapsto> Raw (ascii ''y'')])
           (Str (js ''any key'')) (Str (js ''any value'')))
        (Str (js ''any key''))
       = Inr (Some (js ''any value''))"
proof -
  let ?p = "\<lparr>baseKey = Imported (ascii ''raw key''), resolvedSalt = Raw (ascii ''s1''), resolvedIterations = None\<rparr>"
  let ?c = "\<lparr>key = Some (Text (js ''raw key'')), db = None, name = None, salt = None, iterations = None\<rparr>"
  have a: "constructor (ascii ''s1'') ?c Map.empty
      = Inr (?p, [generateHash (Str (js ''o-salt'')) \<mapsto> Raw (ascii ''s1'')])"
    by (simp add: eval_defs)
  have b: "Str (js ''any key'') \<noteq> Buf (ascii ''nonce'')" by simp
  have w: "well_formed (map unat (js ''any value''))" "hd (js ''any value'') \<noteq> 0xFEFF"
    by (simp_all add: codec_defs)
  from a b w clear_keeps_only_salt [OF a, of "ascii ''s2''" "[Digest (ascii ''x'') \<mapsto> Raw (ascii ''y'')]"
      "ascii ''s3''" "Str (js ''any key'')" Derived "ascii ''n''" "Str (js ''any value'')" "js ''any value''"]
  show ?thesis by blast
qed

text \<open>
  Claim C7 as stated fails: after \<open>clear\<close>, \<open>set\<close> and \<open>get\<close> under the binary key
  holding the bytes of \<open>nonce\<close> do not succeed; \<open>get\<close> raises the authenticity error.
\<close>

theorem clear_then_set_get_counterexample:
  "constructor (ascii ''s1'')
      \<lparr>key = Some (Text (js ''raw key'')), db = None, name = None, salt = None, iterations = None\<rparr>
      Map.empty
     = Inr (\<lparr>baseKey = Imported (ascii ''raw key''), resolvedSalt = Raw (ascii ''s1''), resolvedIterations = None\<rparr>,
            [generateHash (Str (js ''o-salt'')) \<mapsto> Raw (ascii ''s1'')])
   \<and> get Derived \<lparr>baseKey = Imported (ascii ''raw key''), resolvedSalt = Raw (ascii ''s1''), resolvedIterations = None\<rparr>
        (set' Derived \<lparr>baseKey = Imported (ascii ''raw key''), resolvedSalt = Raw (ascii ''s1''), resolvedIterations = None\<rparr>
           (ascii ''n'')
           (clear (ascii ''s2'') \<lparr>baseKey = Imported (ascii ''raw key''), resolvedSalt = Raw (ascii ''s1''), resolvedIterations = None\<rparr>
              [generateHash (Str (js ''o-salt'')) \<mapsto> Raw (ascii ''s1'')])
           (Buf (ascii ''nonce'')) (Str (js ''v'')))
        (Buf (ascii ''nonce''))
       = Inl (Error AUTHENTICITY_ERROR_MESSAGE)"
  by (simp add: eval_defs)

text \<open>
  Claim C8, as the code has it: \<open>delete\<close> removes the ciphertext record and the nonce
  record of the key, and \<open>get\<close> of the key reports not found afterwards; \<open>delete\<close>
  of a key neither of whose two records exists leaves the table as it is; and \<open>get\<close>
  of another key whose value address and nonce address are not among the two
  addresses of the deleted key returns what it returned before.
\<close>

theorem delete_removes_both_records:
  "delete store k (generateHash k) = None
   \<and> delete store k (generateHash (Str (getNonceKey k))) = None
   \<and> get dk props (delete store k) k = Inr None
   \<and> (store (generateHash k) = None \<and> store (generateHash (Str (getNonceKey k))) = None
        \<longrightarrow> delete store k = store)
   \<and> (generateHash k' \<noteq> generateHash k
      \<and> generateHash k' \<noteq> generateHash (Str (getNonceKey k))
      \<and> generateHash (Str (getNonceKey k')) \<noteq> generateHash k
      \<and> generateHash (Str (getNonceKey k')) \<noteq> generateHash (Str (getNonceKey k))
        \<longrightarrow> get dk props (delete store k) k' = get dk props store k')"
proof -
  have "get dk props (delete store k) k = Inr None"
    using delete_removes [of store k] by (simp add: get_absent)
  moreover have "get dk props (delete store k) k' = get dk props store k'"
    if "generateHash k' \<noteq> generateHash k"
       "generateHash k' \<noteq> generateHash (Str (getNonceKey k))"
       "generateHash (Str (getNonceKey k')) \<noteq> generateHash k"
       "generateHash (Str (getNonceKey k')) \<noteq> generateHash (Str (getNonceKey k))"
    using that by (intro get_two_addresses delete_other)
  ultimately show ?thesis
    using delete_removes [of store k] delete_absent [of store k] by blast
qed

text \<open>
  The scenario of the spec: \<open>a\<close> and \<open>b\<close> are stored, \<open>a\<close> is deleted, \<open>b\<close> is
  still read; and deleting the absent key \<open>c\<close> changes nothing.
\<close>

theorem delete_removes_both_records_witness:
  "generateHash (Str (js ''b'')) \<noteq> generateHash (Str (js ''a''))
   \<and> generateHash (Str (js ''b'')) \<noteq> generateHash (Str (getNonceKey (Str (js ''a''))))
   \<and> generateHash (Str (getNonceKey (Str (js ''b'')))) \<noteq> generateHash (Str (js ''a''))
   \<and> generateHash (Str (getNonceKey (Str (js ''b''))))
       \<noteq> generateHash (Str (getNonceKey (Str (js ''a''))))
   \<and> get Derived \<lparr>baseKey = Imported (ascii ''k''), resolvedSalt = Raw (ascii ''s''), resolvedIterations = None\<rparr>
        (delete
          (set' Derived \<lparr>baseKey = Imported (ascii ''k''), resolvedSalt = Raw (ascii ''s''), resolvedIterations = None\<rparr>
             (ascii ''n2'')
            (set' Derived \<lparr>baseKey = Imported (ascii ''k''), resolvedSalt = Raw (ascii ''s''), resolvedIterations = None\<rparr>
               (ascii ''n1'') Map.empty (Str (js ''a'')) (Str (js ''1''))) (Str (js ''b'')) (Str (js ''2'')))
          (Str (js ''a''))) (Str (js ''b''))
       = Inr (Some (js ''2''))
   \<and> get Derived \<lparr>baseKey = Imported (ascii ''k''), resolvedSalt = Raw (ascii ''s''), resolvedIterations = None\<rparr>
        (delete
          (set' Derived \<lparr>baseKey = Imported (ascii ''k''), resolvedSalt = Raw (ascii ''s''), resolvedIterations = None\<rparr>
             (ascii ''n2'')
            (set' Derived \<lparr>baseKey = Imported (ascii ''k''), resolvedSalt = Raw (ascii ''s''), resolvedIterations = None\<rparr>
               (ascii ''n1'') Map.empty (Str (js ''a'')) (Str (js ''1''))) (Str (js ''b'')) (Str (js ''2'')))
          (Str (js ''a''))) (Str (js ''a''))
       = Inr None
   \<and> (Map.empty :: table) (generateHash (Str (js ''c''))) = None
   \<and> (Map.empty :: table) (generateHash (Str (getNonceKey (Str (js ''c''))))) = None
   \<and> delete Map.empty (Str (js ''c'')) = Map.empty"
proof -
  let ?p = "\<lparr>baseKey = Imported (ascii ''k''), resolvedSalt = Raw (ascii ''s''), resolvedIterations = None\<rparr>"
  let ?t = "set' Derived ?p (ascii ''n2'')
              (set' Derived ?p (ascii ''n1'') Map.empty (Str (js ''a'')) (Str (js ''1'')))
              (Str (js ''b'')) (Str (js ''2''))"
  have g: "get Derived ?p ?t (Str (js ''b'')) = Inr (Some (js ''2''))"
    by (simp add: eval_defs)
  have d: "generateHash (Str (js ''b'')) \<noteq> generateHash (Str (js ''a''))"
    "generateHash (Str (js ''b'')) \<noteq> generateHash (Str (getNonceKey (Str (js ''a''))))"
    "generateHash (Str (getNonceKey (Str (js ''b'')))) \<noteq> generateHash (Str (js ''a''))"
    "generateHash (Str (getNonceKey (Str (js ''b''))))
       \<noteq> generateHash (Str (getNonceKey (Str (js ''a''))))"
    by (simp_all add: eval_defs)
  note full = delete_removes_both_records [of ?t "Str (js ''a'')" Derived ?p "Str (js ''b'')"]
  note none = delete_removes_both_records [of Map.empty "Str (js ''c'')" Derived ?p "Str (js ''b'')"]
  from full d g have b: "get Derived ?p (delete ?t (Str (js ''a''))) (Str (js ''b'')) = Inr (Some (js ''2''))"
    by metis
  from full have a: "get Derived ?p (delete ?t (Str (js ''a''))) (Str (js ''a'')) = Inr None"
    by blast
  have e: "(Map.empty :: table) (generateHash (Str (js ''c''))) = None"
    "(Map.empty :: table) (generateHash (Str (getNonceKey (Str (js ''c''))))) = None"
    by simp_all
  from none e have c: "delete Map.empty (Str (js ''c'')) = Map.empty"
    by blast
  from d a b c e show ?thesis by blast
qed

text \<open>
  Claim C8 as stated fails: only the key \<open>a-nonce\<close> is stored and the key \<open>a\<close> is
  absent; deleting \<open>a\<close> removes the ciphertext record of \<open>a-nonce\<close>, which is no
  longer retrievable.
\<close>

theorem delete_absent_key_counterexample:
  "set' Derived \<lparr>baseKey = Imported (ascii ''k''), resolvedSalt = Raw (ascii ''s''), resolvedIterations = None\<rparr>
      (ascii ''n'') Map.empty (Str (js ''a-nonce'')) (Str (js ''2'')) (generateHash (Str (js ''a''))) = None
   \<and> get Derived \<lparr>baseKey = Imported (ascii ''k''), resolvedSalt = Raw (ascii ''s''), resolvedIterations = None\<rparr>
       (set' Derived \<lparr>baseKey = Imported (ascii ''k''), resolvedSalt = Raw (ascii ''s''), resolvedIterations = None\<rparr>
          (ascii ''n'') Map.empty (Str (js ''a-nonce'')) (Str (js ''2''))) (Str (js ''a-nonce''))
      = Inr (Some (js ''2''))
   \<and> get Derived \<lparr>baseKey = Imported (ascii ''k''), resolvedSalt = Raw (ascii ''s''), resolvedIterations = None\<rparr>
       (delete
          (set' Derived \<lparr>baseKey = Imported (ascii ''k''), resolvedSalt = Raw (ascii ''s''), resolvedIterations = None\<rparr>
             (ascii ''n'') Map.empty (Str (js ''a-nonce'')) (Str (js ''2''))) (Str (js ''a'')))
       (Str (js ''a-nonce''))
      = Inr None"
  by (simp add: eval_defs)

section \<open>Construction\<close>

text \<open>
  Claim C9, as the code has it: construction with a missing secret or with the empty
  text as secret fails with the error \<open>Key is required.\<close> and yields no instance;
  with every other secret (a non-empty text, a buffer, also an empty one, or a key
  handle) it does not throw and yields the initialized instance.
\<close>

theorem constructor_throws_on_missing_or_empty_text:
  "(key cfg = None \<or> key cfg = Some (Text []) \<longrightarrow>
      constructor rnd cfg store = Inl (Error ''Key is required.''))
   \<and> (key cfg = Some k \<and> k \<noteq> Text [] \<longrightarrow>
      constructor rnd cfg store = Inr (init rnd k cfg store))"
  by (cases k) (auto simp add: constructor_def CRYPTO_KEY_ERROR_MESSAGE_def)

theorem constructor_throws_on_missing_or_empty_text_witness:
  "key \<lparr>key = None, db = None, name = None, salt = None, iterations = None\<rparr> = None
   \<and> constructor (ascii ''r'') \<lparr>key = None, db = None, name = None, salt = None, iterations = None\<rparr>
        Map.empty
       = Inl (Error ''Key is required.'')
   \<and> key \<lparr>key = Some (Text (js ''raw key'')), db = None, name = None, salt = None, iterations = None\<rparr>
       = Some (Text (js ''raw key''))
   \<and> Text (js ''raw key'') \<noteq> Text []
   \<and> constructor (ascii ''r'')
        \<lparr>key = Some (Text (js ''raw key'')), db = None, name = None, salt = None, iterations = None\<rparr>
        Map.empty
       = Inr (\<lparr>baseKey = Imported (ascii ''raw key''), resolvedSalt = Raw (ascii ''r''), resolvedIterations = None\<rparr>,
              [generateHash (Str (js ''o-salt'')) \<mapsto> Raw (ascii ''r'')])"
proof -
  let ?c0 = "\<lparr>key = None, db = None, name = None, salt = None, iterations = None\<rparr>"
  let ?c1 = "\<lparr>key = Some (Text (js ''raw key'')), db = None, name = None, salt = None, iterations = None\<rparr>"
  have h0: "key ?c0 = None" by simp
  have h1: "key ?c1 = Some (Text (js ''raw key''))" "Text (js ''raw key'') \<noteq> Text []"
    by (simp_all add: js_def)
  have i: "init (ascii ''r'') (Text (js ''raw key'')) ?c1 Map.empty
      = (\<lparr>baseKey = Imported (ascii ''raw key''), resolvedSalt = Raw (ascii ''r''), resolvedIterations = None\<rparr>,
         [generateHash (Str (js ''o-salt'')) \<mapsto> Raw (ascii ''r'')])"
    by (simp add: eval_defs)
  from h0 constructor_throws_on_missing_or_empty_text [of ?c0 "ascii ''r''" Map.empty "Text (js ''raw key'')"]
  have a: "constructor (ascii ''r'') ?c0 Map.empty = Inl (Error ''Key is required.'')"
    by blast
  from h1 constructor_throws_on_missing_or_empty_text [of ?c1 "ascii ''r''" Map.empty "Text (js ''raw key'')"]
  have "constructor (ascii ''r'') ?c1 Map.empty
      = Inr (init (ascii ''r'') (Text (js ''raw key'')) ?c1 Map.empty)"
    by blast
  with i have b: "constructor (ascii ''r'') ?c1 Map.empty
      = Inr (\<lparr>baseKey = Imported (ascii ''raw key''), resolvedSalt = Raw (ascii ''r''), resolvedIterations = None\<rparr>,
             [generateHash (Str (js ''o-salt'')) \<mapsto> Raw (ascii ''r'')])"
    by simp
  from h0 h1 a b show ?thesis by blast
qed

text \<open>
  Claim C9 as stated fails: with an empty buffer as secret, which is an empty secret,
  construction does not throw.
\<close>

theorem constructor_empty_buffer_counterexample:
  "constructor (ascii ''r'')
      \<lparr>key = Some (Binary []), db = None, name = None, salt = None, iterations = None\<rparr> Map.empty
    = Inr (\<lparr>baseKey = Imported [], resolvedSalt = Raw (ascii ''r''), resolvedIterations = None\<rparr>,
           [generateHash (Str (js ''o-salt'')) \<mapsto> Raw (ascii ''r'')])"
  by (simp add: eval_defs)

end
